theory Spec2Isabelle
  imports Complex_Main
begin

section \<open>JavaScript numbers\<close>

text \<open>
  Every quantity of the calculator is a JavaScript \<open>number\<close>, an IEEE 754 double. The
  special values are modelled with their IEEE rules: \<open>0/0\<close> is \<open>NaN\<close>, \<open>x/0\<close> is an
  infinity, \<open>NaN\<close> is contagious and every comparison with \<open>NaN\<close> is false. A finite
  number is modelled by a real, and arithmetic on finite numbers is exact: the model
  does not round, overflow or underflow, and a decimal literal such as \<open>0.1\<close> is the
  fraction it denotes. Zero carries no sign: the only divisor that can be a negative
  zero is the monthly rate, under the numerator \<open>0\<close>, and \<open>0 / -0\<close> is \<open>NaN\<close> as
  \<open>0 / 0\<close> is.

  The properties proved below are of two kinds, so that they do not lean on the exact
  arithmetic. Some evaluate the code at inputs on which doubles compute the same values
  or the same comparisons (a zero rate, small whole numbers). The others hold whatever
  the arithmetic on finite numbers returns: their proofs use the control flow, the
  comparisons, \<open>Math.max\<close> and \<open>Math.round\<close>, and never the value of a sum, a
  product, a quotient or a power. The lemmas that do depend on exact arithmetic say so.
\<close>

datatype number = Fin real | PInf | NInf | NaN

fun num_neg :: "number \<Rightarrow> number" where
  "num_neg (Fin a) = Fin (- a)"
| "num_neg PInf = NInf"
| "num_neg NInf = PInf"
| "num_neg NaN = NaN"

fun num_add :: "number \<Rightarrow> number \<Rightarrow> number" where
  "num_add NaN _ = NaN"
| "num_add _ NaN = NaN"
| "num_add (Fin a) (Fin b) = Fin (a + b)"
| "num_add PInf NInf = NaN"
| "num_add NInf PInf = NaN"
| "num_add PInf _ = PInf"
| "num_add NInf _ = NInf"
| "num_add (Fin a) PInf = PInf"
| "num_add (Fin a) NInf = NInf"

definition num_sub :: "number \<Rightarrow> number \<Rightarrow> number" where
  "num_sub a b = num_add a (num_neg b)"

text \<open>The sign of an infinite product or quotient: \<open>True\<close> is positive.\<close>

definition signed_inf :: "bool \<Rightarrow> number" where
  "signed_inf positive = (if positive then PInf else NInf)"

fun num_mul :: "number \<Rightarrow> number \<Rightarrow> number" where
  "num_mul NaN _ = NaN"
| "num_mul _ NaN = NaN"
| "num_mul (Fin a) (Fin b) = Fin (a * b)"
| "num_mul PInf PInf = PInf"
| "num_mul PInf NInf = NInf"
| "num_mul NInf PInf = NInf"
| "num_mul NInf NInf = PInf"
| "num_mul PInf (Fin b) = (if b = 0 then NaN else signed_inf (0 < b))"
| "num_mul NInf (Fin b) = (if b = 0 then NaN else signed_inf (b < 0))"
| "num_mul (Fin a) PInf = (if a = 0 then NaN else signed_inf (0 < a))"
| "num_mul (Fin a) NInf = (if a = 0 then NaN else signed_inf (a < 0))"

fun num_div :: "number \<Rightarrow> number \<Rightarrow> number" where
  "num_div NaN _ = NaN"
| "num_div _ NaN = NaN"
| "num_div (Fin a) (Fin b) =
     (if b = 0 then (if a = 0 then NaN else signed_inf (0 < a)) else Fin (a / b))"
| "num_div (Fin a) PInf = Fin 0"
| "num_div (Fin a) NInf = Fin 0"
| "num_div PInf (Fin b) = signed_inf (0 \<le> b)"
| "num_div NInf (Fin b) = signed_inf (b < 0)"
| "num_div PInf _ = NaN"
| "num_div NInf _ = NaN"

text \<open>
  \<open>Math.pow\<close> at an exponent that is a non-negative integer, which is what a count of
  months is. \<open>Math.pow(x, 0)\<close> is \<open>1\<close> for every \<open>x\<close>, \<open>NaN\<close> included.
\<close>

fun math_pow :: "number \<Rightarrow> nat \<Rightarrow> number" where
  "math_pow (Fin a) n = Fin (a ^ n)"
| "math_pow PInf n = (if n = 0 then Fin 1 else PInf)"
| "math_pow NInf n = (if n = 0 then Fin 1 else if even n then PInf else NInf)"
| "math_pow NaN n = (if n = 0 then Fin 1 else NaN)"

text \<open>\<open>a < b\<close>, \<open>a <= b\<close> and \<open>a >= b\<close>: false as soon as one side is \<open>NaN\<close>.\<close>

fun num_lt :: "number \<Rightarrow> number \<Rightarrow> bool" where
  "num_lt NaN _ = False"
| "num_lt _ NaN = False"
| "num_lt (Fin a) (Fin b) = (a < b)"
| "num_lt _ NInf = False"
| "num_lt NInf _ = True"
| "num_lt PInf _ = False"
| "num_lt (Fin a) PInf = True"

fun num_le :: "number \<Rightarrow> number \<Rightarrow> bool" where
  "num_le NaN _ = False"
| "num_le _ NaN = False"
| "num_le (Fin a) (Fin b) = (a \<le> b)"
| "num_le NInf _ = True"
| "num_le _ PInf = True"
| "num_le PInf _ = False"
| "num_le (Fin a) NInf = False"

definition num_ge :: "number \<Rightarrow> number \<Rightarrow> bool" where
  "num_ge a b = num_le b a"

text \<open>\<open>Math.max\<close> of two numbers: \<open>NaN\<close> if either is.\<close>

definition math_max :: "number \<Rightarrow> number \<Rightarrow> number" where
  "math_max a b = (if a = NaN \<or> b = NaN then NaN else if num_lt a b then b else a)"

text \<open>\<open>Math.round\<close> rounds half up, \<open>Math.floor\<close> rounds down; both keep the special values.\<close>

fun math_round :: "number \<Rightarrow> number" where
  "math_round (Fin a) = Fin (of_int \<lfloor>a + 1 / 2\<rfloor>)"
| "math_round x = x"

fun math_floor :: "number \<Rightarrow> number" where
  "math_floor (Fin a) = Fin (of_int \<lfloor>a\<rfloor>)"
| "math_floor x = x"

text \<open>Truthiness of a number in a condition: \<open>0\<close> and \<open>NaN\<close> are falsy.\<close>

fun truthy :: "number \<Rightarrow> bool" where
  "truthy (Fin a) = (a \<noteq> 0)"
| "truthy NaN = False"
| "truthy _ = True"

section \<open>The calculation engine\<close>

subsection \<open>Constants\<close>

definition SP500_INTEREST :: number where "SP500_INTEREST = Fin 10"
definition SAVINGS_INTEREST :: number where "SAVINGS_INTEREST = Fin (15 / 10)"
definition BONDS_INTEREST :: number where "BONDS_INTEREST = Fin (45 / 10)"
definition INFLATION_RATE :: real where "INFLATION_RATE = 3"
definition BEST_YEAR :: number where "BEST_YEAR = Fin 37"
definition WORST_YEAR :: number where "WORST_YEAR = Fin (- 37)"

subsection \<open>calculateFutureValue\<close>

text \<open>
  \<open>FV = PV(1 + r)^n + PMT * (((1 + r)^n - 1) / r)\<close> with the monthly rate
  \<open>r = annualRate / 100 / 12\<close>. The source divides by \<open>r\<close> whatever its value.
\<close>

definition calculateFutureValue :: "number \<Rightarrow> number \<Rightarrow> number \<Rightarrow> nat \<Rightarrow> number" where
  "calculateFutureValue principal' monthlyContribution annualRate months =
     (let monthlyRate = num_div (num_div annualRate (Fin 100)) (Fin 12);
          fvPrincipal = num_mul principal' (math_pow (num_add (Fin 1) monthlyRate) months);
          fvContributions = num_mul monthlyContribution
            (num_div (num_sub (math_pow (num_add (Fin 1) monthlyRate) months) (Fin 1)) monthlyRate)
      in num_add fvPrincipal fvContributions)"

subsection \<open>calculateRequiredInvestment\<close>

text \<open>
  \<open>PV = (FV - PMT * (((1 + r)^n - 1) / r)) / (1 + r)^n\<close>, floored at zero by
  \<open>Math.max(0, requiredPrincipal)\<close>.
\<close>

definition calculateRequiredInvestment :: "number \<Rightarrow> number \<Rightarrow> number \<Rightarrow> nat \<Rightarrow> number" where
  "calculateRequiredInvestment targetAmount monthlyContribution annualRate months =
     (let monthlyRate = num_div (num_div annualRate (Fin 100)) (Fin 12);
          fvContributions = num_mul monthlyContribution
            (num_div (num_sub (math_pow (num_add (Fin 1) monthlyRate) months) (Fin 1)) monthlyRate);
          requiredPrincipal = num_div (num_sub targetAmount fvContributions)
            (math_pow (num_add (Fin 1) monthlyRate) months)
      in math_max (Fin 0) requiredPrincipal)"

subsection \<open>calculateProjections\<close>

record MonthData =
  month :: number
  year :: number
  balance :: number
  contributions :: number
  gains :: number
  inflationAdjusted :: number
  savingsAccount :: number
  bonds :: number
  bestCase :: number
  worstCase :: number

text \<open>
  The divisor \<open>Math.pow(1 + INFLATION_RATE / 100, month / 12)\<close>: the exponent is a
  fraction and the base the positive constant \<open>1.03\<close>, so it is the real power.
\<close>

definition inflation_divisor :: "nat \<Rightarrow> number" where
  "inflation_divisor m = Fin ((1 + INFLATION_RATE / 100) powr (real m / 12))"

text \<open>The body of the loop: the point pushed for month \<open>m\<close>.\<close>

definition month_point :: "number \<Rightarrow> number \<Rightarrow> number \<Rightarrow> nat \<Rightarrow> MonthData" where
  "month_point initialInvestment monthlyContribution annualRate m =
     (let balance' = calculateFutureValue initialInvestment monthlyContribution annualRate m;
          contributions' = num_add initialInvestment (num_mul monthlyContribution (Fin (real m)));
          gains' = num_sub balance' contributions';
          inflationAdjusted' = num_div balance' (inflation_divisor m);
          savingsAccount' = calculateFutureValue initialInvestment monthlyContribution SAVINGS_INTEREST m;
          bonds' = calculateFutureValue initialInvestment monthlyContribution BONDS_INTEREST m;
          bestCase' = calculateFutureValue initialInvestment monthlyContribution BEST_YEAR m;
          worstCase' = calculateFutureValue initialInvestment monthlyContribution WORST_YEAR m
      in \<lparr> month = Fin (real m),
           year = math_floor (num_div (Fin (real m)) (Fin 12)),
           balance = math_round balance',
           contributions = math_round contributions',
           gains = math_round gains',
           inflationAdjusted = math_round inflationAdjusted',
           savingsAccount = math_round savingsAccount',
           bonds = math_round bonds',
           bestCase = math_round bestCase',
           worstCase = math_round worstCase' \<rparr>)"

text \<open>\<open>for (let month = 1; month <= months; month++) data.push(...)\<close>\<close>

function projections_loop ::
  "number \<Rightarrow> number \<Rightarrow> number \<Rightarrow> nat \<Rightarrow> nat \<Rightarrow> MonthData list \<Rightarrow> MonthData list" where
  "projections_loop initialInvestment monthlyContribution annualRate months m data =
     (if m \<le> months
      then projections_loop initialInvestment monthlyContribution annualRate months (m + 1)
             (data @ [month_point initialInvestment monthlyContribution annualRate m])
      else data)"
  by pat_completeness auto
termination
  by (relation "measure (\<lambda>(i, c, r, months, m, data). months + 1 - m)") auto

declare projections_loop.simps [simp del]

definition calculateProjections :: "number \<Rightarrow> number \<Rightarrow> number \<Rightarrow> nat \<Rightarrow> MonthData list" where
  "calculateProjections initialInvestment monthlyContribution annualRate years =
     (let months = years * 12
      in projections_loop initialInvestment monthlyContribution annualRate months 1 [])"

subsection \<open>calculateYearsToMilestone\<close>

text \<open>The bisection \<open>while (low < high)\<close> over the number of months.\<close>

function milestone_loop ::
  "number \<Rightarrow> number \<Rightarrow> number \<Rightarrow> number \<Rightarrow> nat \<Rightarrow> nat \<Rightarrow> nat" where
  "milestone_loop currentBalance monthlyContribution annualRate targetAmount low high =
     (if low < high
      then (let mid = (low + high) div 2;
                v = calculateFutureValue currentBalance monthlyContribution annualRate mid
            in if num_lt v targetAmount
               then milestone_loop currentBalance monthlyContribution annualRate targetAmount (mid + 1) high
               else milestone_loop currentBalance monthlyContribution annualRate targetAmount low mid)
      else low)"
  by pat_completeness auto
termination
  by (relation "measure (\<lambda>(b, c, r, t, low, high). high - low)") auto

declare milestone_loop.simps [simp del]

definition calculateYearsToMilestone :: "number \<Rightarrow> number \<Rightarrow> number \<Rightarrow> number \<Rightarrow> number" where
  "calculateYearsToMilestone currentBalance monthlyContribution annualRate targetAmount =
     (if num_ge currentBalance targetAmount then Fin 0
      else num_div
             (Fin (real (milestone_loop currentBalance monthlyContribution annualRate targetAmount 0 1200)))
             (Fin 12))"

subsection \<open>calculateInvestmentMetrics\<close>

record InvestmentMetrics =
  finalBalance :: number
  totalContributions :: number
  totalGains :: number
  inflationAdjustedValue :: number
  monthlyIncome :: number
  yearsTo1M :: number
  yearsTo2M :: number
  yearsTo5M :: number
  vsSavings :: number
  vsBonds :: number
  requiredRate :: number
  withdrawalSustainability :: number

text \<open>Reading a field of \<open>undefined\<close> throws a \<open>TypeError\<close>.\<close>

datatype js_error = TypeError

text \<open>
  \<open>for (let rate = 0; rate <= 50; rate += 0.1)\<close>: the loop returns the value of
  \<open>requiredRate\<close> when it ends, by the \<open>break\<close> or by running past \<open>50\<close>. The
  model adds the exact tenth. In doubles the sum drifts (\<open>0.30000000000000004\<close> after
  three steps, \<open>50.00000000000044\<close> after five hundred, so that \<open>50\<close> itself is never
  tried); only the first two values of \<open>rate\<close> are used in a property below, and in doubles
  too they are the literals \<open>0\<close> and \<open>0.1\<close>.
\<close>

function rate_loop :: "number \<Rightarrow> number \<Rightarrow> nat \<Rightarrow> number \<Rightarrow> real \<Rightarrow> real \<Rightarrow> real" where
  "rate_loop initialInvestment monthlyContribution n targetBalance requiredRate' rate =
     (if rate \<le> 50
      then (let testBalance = calculateFutureValue initialInvestment monthlyContribution (Fin rate) n
            in if num_ge testBalance targetBalance then rate
               else rate_loop initialInvestment monthlyContribution n targetBalance requiredRate'
                      (rate + 1 / 10))
      else requiredRate')"
  by pat_completeness auto
termination
proof (relation "measure (\<lambda>(i, c, n, t, q, rate). nat \<lfloor>(51 - rate) * 10\<rfloor>)", goal_cases)
  case 1
  show ?case by simp
next
  case (2 i c n t q rate x)
  have "(51 - (rate + 1 / 10)) * 10 = (51 - rate) * 10 - 1"
    by (simp add: algebra_simps)
  then have "\<lfloor>(51 - (rate + 1 / 10)) * 10\<rfloor> = \<lfloor>(51 - rate) * 10\<rfloor> - 1"
    by (simp only: floor_diff_one)
  moreover from 2 have "10 \<le> \<lfloor>(51 - rate) * 10\<rfloor>"
    by (simp add: le_floor_iff)
  ultimately show ?case by simp
qed

declare rate_loop.simps [simp del]

definition calculateInvestmentMetrics ::
  "MonthData list \<Rightarrow> number \<Rightarrow> number \<Rightarrow> number \<Rightarrow> number option \<Rightarrow> js_error + InvestmentMetrics" where
  "calculateInvestmentMetrics projections initialInvestment monthlyContribution annualRate
       targetMonthlyIncome =
     (if projections = [] then Inl TypeError
      else
        (let finalMonth = projections ! (length projections - 1);
             monthlyIncome' = num_div (num_mul (balance finalMonth) (Fin (4 / 100))) (Fin 12);
             yearsTo1M' = calculateYearsToMilestone initialInvestment monthlyContribution annualRate
                            (Fin 1000000);
             yearsTo2M' = calculateYearsToMilestone initialInvestment monthlyContribution annualRate
                            (Fin 2000000);
             yearsTo5M' = calculateYearsToMilestone initialInvestment monthlyContribution annualRate
                            (Fin 5000000);
             vsSavings' = num_sub (balance finalMonth) (savingsAccount finalMonth);
             vsBonds' = num_sub (balance finalMonth) (bonds finalMonth);
             requiredRate' =
               (case targetMonthlyIncome of
                  None \<Rightarrow> 0
                | Some t \<Rightarrow>
                    if truthy t
                    then rate_loop initialInvestment monthlyContribution (length projections)
                           (num_div (num_mul t (Fin 12)) (Fin (4 / 100))) 0 0
                    else 0);
             withdrawalSustainability' = Fin 25
         in Inr \<lparr> finalBalance = math_round (balance finalMonth),
                  totalContributions = math_round (contributions finalMonth),
                  totalGains = math_round (gains finalMonth),
                  inflationAdjustedValue = math_round (inflationAdjusted finalMonth),
                  monthlyIncome = math_round monthlyIncome',
                  yearsTo1M = num_div (math_round (num_mul yearsTo1M' (Fin 10))) (Fin 10),
                  yearsTo2M = num_div (math_round (num_mul yearsTo2M' (Fin 10))) (Fin 10),
                  yearsTo5M = num_div (math_round (num_mul yearsTo5M' (Fin 10))) (Fin 10),
                  vsSavings = math_round vsSavings',
                  vsBonds = math_round vsBonds',
                  requiredRate = num_div (math_round (num_mul (Fin requiredRate') (Fin 10))) (Fin 10),
                  withdrawalSustainability = withdrawalSustainability' \<rparr>))"

subsection \<open>The locals of calculateRequiredInvestment\<close>

text \<open>
  The three values that \<open>calculateRequiredInvestment\<close> computes on its way, under the
  names they have in the source: the monthly rate, the future value of the contributions
  alone, and the required principal before \<open>Math.max(0, requiredPrincipal)\<close>.
\<close>

definition monthlyRate :: "number \<Rightarrow> number" where
  "monthlyRate annualRate = num_div (num_div annualRate (Fin 100)) (Fin 12)"

definition fvContributions :: "number \<Rightarrow> number \<Rightarrow> nat \<Rightarrow> number" where
  "fvContributions monthlyContribution annualRate months =
     num_mul monthlyContribution
       (num_div (num_sub (math_pow (num_add (Fin 1) (monthlyRate annualRate)) months) (Fin 1))
          (monthlyRate annualRate))"

definition requiredPrincipal :: "number \<Rightarrow> number \<Rightarrow> number \<Rightarrow> nat \<Rightarrow> number" where
  "requiredPrincipal targetAmount monthlyContribution annualRate months =
     num_div (num_sub targetAmount (fvContributions monthlyContribution annualRate months))
       (math_pow (num_add (Fin 1) (monthlyRate annualRate)) months)"

section \<open>Properties\<close>

subsection \<open>Closed forms on finite inputs\<close>

text \<open>
  At the rate \<open>0\<close> the result is \<open>NaN\<close>, in the model as in doubles. At any other finite
  rate the model gives the closed formula in exact arithmetic.
\<close>

lemma futureValue_zero_rate: "calculateFutureValue (Fin p) (Fin c) (Fin 0) n = NaN"
  by (simp add: calculateFutureValue_def num_sub_def)

lemma futureValue_closed_form:
  assumes "r \<noteq> 0"
  shows "calculateFutureValue (Fin p) (Fin c) (Fin r) n =
         Fin (p * (1 + r / 1200) ^ n + c * (((1 + r / 1200) ^ n - 1) / (r / 1200)))"
  using assms by (simp add: calculateFutureValue_def num_sub_def)

lemma requiredInvestment_zero_rate:
  "calculateRequiredInvestment (Fin t) (Fin c) (Fin 0) n = NaN"
  by (simp add: calculateRequiredInvestment_def num_sub_def math_max_def)

lemma requiredInvestment_closed_form:
  assumes "r \<noteq> 0" and "r \<noteq> - 1200"
  shows "calculateRequiredInvestment (Fin t) (Fin c) (Fin r) n =
         Fin (max 0 ((t - c * (((1 + r / 1200) ^ n - 1) / (r / 1200))) / (1 + r / 1200) ^ n))"
proof -
  have "1 + r / 1200 \<noteq> 0" using assms(2) by auto
  then show ?thesis
    using assms(1) by (simp add: calculateRequiredInvestment_def num_sub_def math_max_def max_def)
qed

subsection \<open>Future value\<close>

text \<open>
  C1. At an annual rate of exactly zero the future value should be
  \<open>principal + monthlyContribution * periods\<close>, so \<open>2200\<close> for a principal of \<open>1000\<close>
  and twelve contributions of \<open>100\<close>. The code has no branch for a zero rate: it divides
  \<open>0\<close> by \<open>0\<close> and the result is \<open>NaN\<close>.
\<close>

theorem C1_zero_rate_is_NaN:
  "calculateFutureValue (Fin 1000) (Fin 100) (Fin 0) 12 = NaN"
  by (simp add: calculateFutureValue_def num_sub_def)

text \<open>
  In exact arithmetic: at a positive rate, with a non-negative principal and
  contribution, the future value does not decrease with the number of months.
\<close>

lemma futureValue_mono_positive_rate:
  assumes "0 \<le> p" and "0 \<le> c" and "0 < r" and "n1 \<le> n2"
  shows "num_le (calculateFutureValue (Fin p) (Fin c) (Fin r) n1)
                (calculateFutureValue (Fin p) (Fin c) (Fin r) n2)"
proof -
  let ?q = "1 + r / 1200"
  have q: "1 \<le> ?q" using assms(3) by simp
  have pw: "?q ^ n1 \<le> ?q ^ n2" using q assms(4) by (rule power_increasing[rotated])
  have a: "p * ?q ^ n1 \<le> p * ?q ^ n2"
    using pw assms(1) by (rule mult_left_mono)
  have "(?q ^ n1 - 1) / (r / 1200) \<le> (?q ^ n2 - 1) / (r / 1200)"
    using pw assms(3) by (intro divide_right_mono) auto
  then have b: "c * ((?q ^ n1 - 1) / (r / 1200)) \<le> c * ((?q ^ n2 - 1) / (r / 1200))"
    using assms(2) by (rule mult_left_mono)
  from assms(3) have "r \<noteq> 0" by simp
  then show ?thesis
    using a b by (simp add: futureValue_closed_form)
qed

text \<open>
  C4. For a principal, a contribution and a rate that are all non-negative the future
  value should be non-decreasing in the number of months. At the rate \<open>0\<close>, which the
  claim includes, every future value is \<open>NaN\<close> and no two of them compare: the value
  after one month is not below or equal to the value after two.
\<close>

theorem C4_zero_rate_not_monotone:
  "\<not> num_le (calculateFutureValue (Fin 1000) (Fin 100) (Fin 0) 1)
             (calculateFutureValue (Fin 1000) (Fin 100) (Fin 0) 2)"
  by (simp add: calculateFutureValue_def num_sub_def)

subsection \<open>Required investment\<close>

text \<open>
  In exact arithmetic: away from the rates \<open>0\<close> and \<open>-1200\<close>, and when the solution
  for the principal is not negative, the required investment gives back the target.
\<close>

lemma round_trip_nonzero_rate:
  assumes "r \<noteq> 0" and "r \<noteq> - 1200"
    and "0 \<le> (t - c * (((1 + r / 1200) ^ n - 1) / (r / 1200))) / (1 + r / 1200) ^ n"
  shows "calculateFutureValue (calculateRequiredInvestment (Fin t) (Fin c) (Fin r) n)
           (Fin c) (Fin r) n = Fin t"
proof -
  have q: "(1 + r / 1200) ^ n \<noteq> 0" using assms(2) by auto
  show ?thesis
    using assms(1,3) q
    by (simp add: requiredInvestment_closed_form[OF assms(1,2)]
        futureValue_closed_form[OF assms(1)] max_def)
qed

text \<open>
  C2. The required investment for a target, fed back into the future value with the
  same contribution, rate and months, should give the target back. For the target
  \<open>2200\<close>, contributions of \<open>100\<close>, twelve months and the rate \<open>0\<close> the solution for
  the principal is \<open>1000\<close>; the code divides by the zero rate in both functions and the
  round trip ends in \<open>NaN\<close>.
\<close>

theorem C2_round_trip_zero_rate:
  "calculateFutureValue (calculateRequiredInvestment (Fin 2200) (Fin 100) (Fin 0) 12)
     (Fin 100) (Fin 0) 12 = NaN"
  by (simp add: calculateRequiredInvestment_def calculateFutureValue_def num_sub_def math_max_def)

text \<open>
  The function is \<open>Math.max(0, requiredPrincipal)\<close>, and \<open>Math.max\<close> of \<open>0\<close> and
  \<open>x\<close> is never negative: it is \<open>0\<close> when \<open>x\<close> is at most \<open>0\<close>, and \<open>NaN\<close> when
  \<open>x\<close> is.
\<close>

lemma requiredInvestment_clamp:
  "calculateRequiredInvestment t c r n = math_max (Fin 0) (requiredPrincipal t c r n)"
  by (simp add: calculateRequiredInvestment_def requiredPrincipal_def fvContributions_def
      monthlyRate_def Let_def)

lemma math_max_zero_not_negative: "\<not> num_lt (math_max (Fin 0) x) (Fin 0)"
  by (cases x) (simp_all add: math_max_def)

lemma math_max_zero_nonneg: "x \<noteq> NaN \<Longrightarrow> num_ge (math_max (Fin 0) x) (Fin 0)"
  by (cases x) (simp_all add: math_max_def num_ge_def)

lemma math_max_zero_NaN: "math_max (Fin 0) NaN = NaN"
  by (simp add: math_max_def)

lemma math_max_zero_clamps: "num_le x (Fin 0) \<Longrightarrow> math_max (Fin 0) x = Fin 0"
  by (cases x) (auto simp: math_max_def)

lemma quotient_not_positive:
  assumes "num_ge a t" and "num_lt (Fin 0) d" and "num_div (num_sub t a) d \<noteq> NaN"
  shows "num_le (num_div (num_sub t a) d) (Fin 0)"
  using assms
  by (cases t; cases a; cases d)
     (auto simp: num_ge_def num_sub_def signed_inf_def divide_nonpos_pos split: if_splits)

text \<open>
  C5. The required investment is never negative: no result is below \<open>0\<close>. It is at
  or above \<open>0\<close> whenever the required principal before the clamp is a number, and
  \<open>NaN\<close> when that is \<open>NaN\<close>. It is exactly \<open>0\<close> when the future value of the
  contributions alone meets or exceeds the target, provided the divisor \<open>(1 + r)^n\<close> is
  positive and the quotient is a number. This holds for all inputs and whatever the
  arithmetic on finite numbers returns.
\<close>

theorem C5_required_investment_floor:
  "\<not> num_lt (calculateRequiredInvestment t c r n) (Fin 0) \<and>
   (requiredPrincipal t c r n \<noteq> NaN \<longrightarrow>
      num_ge (calculateRequiredInvestment t c r n) (Fin 0)) \<and>
   (requiredPrincipal t c r n = NaN \<longrightarrow> calculateRequiredInvestment t c r n = NaN) \<and>
   (num_ge (fvContributions c r n) t \<and>
    num_lt (Fin 0) (math_pow (num_add (Fin 1) (monthlyRate r)) n) \<and>
    requiredPrincipal t c r n \<noteq> NaN \<longrightarrow>
      calculateRequiredInvestment t c r n = Fin 0)"
proof (intro conjI impI)
  show "\<not> num_lt (calculateRequiredInvestment t c r n) (Fin 0)"
    unfolding requiredInvestment_clamp by (rule math_max_zero_not_negative)
next
  assume "requiredPrincipal t c r n \<noteq> NaN"
  then show "num_ge (calculateRequiredInvestment t c r n) (Fin 0)"
    unfolding requiredInvestment_clamp by (rule math_max_zero_nonneg)
next
  assume "requiredPrincipal t c r n = NaN"
  then show "calculateRequiredInvestment t c r n = NaN"
    unfolding requiredInvestment_clamp by (simp only: math_max_zero_NaN)
next
  assume h: "num_ge (fvContributions c r n) t \<and>
    num_lt (Fin 0) (math_pow (num_add (Fin 1) (monthlyRate r)) n) \<and>
    requiredPrincipal t c r n \<noteq> NaN"
  then have "num_le (requiredPrincipal t c r n) (Fin 0)"
    unfolding requiredPrincipal_def by (intro quotient_not_positive) auto
  then show "calculateRequiredInvestment t c r n = Fin 0"
    unfolding requiredInvestment_clamp by (rule math_max_zero_clamps)
qed

theorem C5_required_investment_floor_witness:
  "requiredPrincipal (Fin 100) (Fin 1000) (Fin 10) 2 \<noteq> NaN \<and>
   num_ge (fvContributions (Fin 1000) (Fin 10) 2) (Fin 100) \<and>
   num_lt (Fin 0) (math_pow (num_add (Fin 1) (monthlyRate (Fin 10))) 2) \<and>
   \<not> num_lt (calculateRequiredInvestment (Fin 100) (Fin 1000) (Fin 10) 2) (Fin 0) \<and>
   num_ge (calculateRequiredInvestment (Fin 100) (Fin 1000) (Fin 10) 2) (Fin 0) \<and>
   calculateRequiredInvestment (Fin 100) (Fin 1000) (Fin 10) 2 = Fin 0"
proof -
  have x: "requiredPrincipal (Fin 100) (Fin 1000) (Fin 10) 2 \<noteq> NaN"
    by (simp add: requiredPrincipal_def fvContributions_def monthlyRate_def num_sub_def)
  have a: "num_ge (fvContributions (Fin 1000) (Fin 10) 2) (Fin 100)"
    by (simp add: fvContributions_def monthlyRate_def num_sub_def num_ge_def power2_eq_square)
  have d: "num_lt (Fin 0) (math_pow (num_add (Fin 1) (monthlyRate (Fin 10))) 2)"
    by (simp add: monthlyRate_def)
  show ?thesis
    using x a d C5_required_investment_floor [of "Fin 100" "Fin 1000" "Fin 10" 2]
    by blast
qed


text \<open>
  At the rate \<open>-1200\<close> the monthly factor is \<open>0\<close>: a target equal to the contribution
  gives \<open>0/0\<close>. At the rate \<open>-2400\<close> the monthly factor is \<open>-1\<close>: the contribution
  of \<open>1\<close> alone exceeds the target \<open>0\<close>, and the required investment is \<open>1\<close>.
\<close>

theorem C5_required_investment_counterexample:
  "\<not> num_ge (calculateRequiredInvestment (Fin 1) (Fin 1) (Fin (- 1200)) 1) (Fin 0) \<and>
   num_ge (calculateFutureValue (Fin 0) (Fin 1) (Fin (- 2400)) 1) (Fin 0) \<and>
   calculateRequiredInvestment (Fin 0) (Fin 1) (Fin (- 2400)) 1 \<noteq> Fin 0"
  by (simp add: calculateRequiredInvestment_def calculateFutureValue_def num_sub_def
      math_max_def num_ge_def)

subsection \<open>Years to a milestone\<close>

text \<open>
  The bisection keeps two facts: every month before \<open>low\<close> is below the target, and
  \<open>high\<close> is at or above it unless it is still the horizon \<open>H\<close>. It needs the months
  below the target to be closed downwards.
\<close>

lemma milestone_loop_bisects:
  assumes "\<forall>m n. m \<le> n \<longrightarrow> num_lt (calculateFutureValue b c r n) t \<longrightarrow>
                   num_lt (calculateFutureValue b c r m) t"
    and "low \<le> high"
    and "\<forall>n<low. num_lt (calculateFutureValue b c r n) t"
    and "high < H \<longrightarrow> \<not> num_lt (calculateFutureValue b c r high) t"
  shows "low \<le> milestone_loop b c r t low high \<and> milestone_loop b c r t low high \<le> high \<and>
         (\<forall>n<milestone_loop b c r t low high. num_lt (calculateFutureValue b c r n) t) \<and>
         (milestone_loop b c r t low high < H \<longrightarrow>
            \<not> num_lt (calculateFutureValue b c r (milestone_loop b c r t low high)) t)"
  using assms
proof (induction b c r t low high rule: milestone_loop.induct)
  case (1 b c r t low high)
  note mono = "1.prems"(1)
  note prems = "1.prems"(2-)
  show ?case
  proof (cases "low < high")
    case False
    with prems have "low = high" by simp
    moreover have "milestone_loop b c r t low high = low"
      using False by (subst milestone_loop.simps) simp
    ultimately show ?thesis using prems by simp
  next
    case True
    let ?mid = "(low + high) div 2"
    have mid: "low \<le> ?mid" "?mid < high" using True by auto
    show ?thesis
    proof (cases "num_lt (calculateFutureValue b c r ?mid) t")
      case below: True
      have "\<forall>n<?mid + 1. num_lt (calculateFutureValue b c r n) t"
        using mono below by (simp add: less_Suc_eq_le)
      moreover have "?mid + 1 \<le> high" using mid by simp
      ultimately have "?mid + 1 \<le> milestone_loop b c r t (?mid + 1) high \<and>
         milestone_loop b c r t (?mid + 1) high \<le> high \<and>
         (\<forall>n<milestone_loop b c r t (?mid + 1) high. num_lt (calculateFutureValue b c r n) t) \<and>
         (milestone_loop b c r t (?mid + 1) high < H \<longrightarrow>
            \<not> num_lt (calculateFutureValue b c r (milestone_loop b c r t (?mid + 1) high)) t)"
        using "1.IH"(1)[OF True refl refl below mono] prems(3) by blast
      moreover have "milestone_loop b c r t low high = milestone_loop b c r t (?mid + 1) high"
        using True below by (subst milestone_loop.simps) (simp add: Let_def)
      ultimately show ?thesis using mid by auto
    next
      case above: False
      have "?mid < H \<longrightarrow> \<not> num_lt (calculateFutureValue b c r ?mid) t"
        using above by simp
      then have "low \<le> milestone_loop b c r t low ?mid \<and>
         milestone_loop b c r t low ?mid \<le> ?mid \<and>
         (\<forall>n<milestone_loop b c r t low ?mid. num_lt (calculateFutureValue b c r n) t) \<and>
         (milestone_loop b c r t low ?mid < H \<longrightarrow>
            \<not> num_lt (calculateFutureValue b c r (milestone_loop b c r t low ?mid)) t)"
        using "1.IH"(2)[OF True refl refl above mono] mid(1) prems(2) by blast
      moreover have "milestone_loop b c r t low high = milestone_loop b c r t low ?mid"
        using True above by (subst milestone_loop.simps) (simp add: Let_def)
      ultimately show ?thesis using mid by auto
    qed
  qed
qed




text \<open>
  Without any assumption on the future value the bisection still ends on a crossing:
  the month before the result was tested below the target, and the result itself, unless
  it is the horizon \<open>H\<close>, was tested not below it.
\<close>

lemma milestone_loop_crossing:
  assumes "low \<le> high"
    and "0 < low \<longrightarrow> num_lt (calculateFutureValue b c r (low - 1)) t"
    and "high < H \<longrightarrow> \<not> num_lt (calculateFutureValue b c r high) t"
  shows "low \<le> milestone_loop b c r t low high \<and> milestone_loop b c r t low high \<le> high \<and>
         (0 < milestone_loop b c r t low high \<longrightarrow>
            num_lt (calculateFutureValue b c r (milestone_loop b c r t low high - 1)) t) \<and>
         (milestone_loop b c r t low high < H \<longrightarrow>
            \<not> num_lt (calculateFutureValue b c r (milestone_loop b c r t low high)) t)"
  using assms
proof (induction b c r t low high rule: milestone_loop.induct)
  case (1 b c r t low high)
  note prems = "1.prems"
  show ?case
  proof (cases "low < high")
    case False
    with prems have "low = high" by simp
    moreover have "milestone_loop b c r t low high = low"
      using False by (subst milestone_loop.simps) simp
    ultimately show ?thesis using prems by simp
  next
    case True
    let ?mid = "(low + high) div 2"
    have mid: "low \<le> ?mid" "?mid < high" using True by auto
    show ?thesis
    proof (cases "num_lt (calculateFutureValue b c r ?mid) t")
      case below: True
      have "?mid + 1 \<le> high" using mid by simp
      moreover have "0 < ?mid + 1 \<longrightarrow> num_lt (calculateFutureValue b c r (?mid + 1 - 1)) t"
        using below by simp
      ultimately have "?mid + 1 \<le> milestone_loop b c r t (?mid + 1) high \<and>
         milestone_loop b c r t (?mid + 1) high \<le> high \<and>
         (0 < milestone_loop b c r t (?mid + 1) high \<longrightarrow>
            num_lt (calculateFutureValue b c r (milestone_loop b c r t (?mid + 1) high - 1)) t) \<and>
         (milestone_loop b c r t (?mid + 1) high < H \<longrightarrow>
            \<not> num_lt (calculateFutureValue b c r (milestone_loop b c r t (?mid + 1) high)) t)"
        using prems(3) by (intro "1.IH"(1)[OF True refl refl below])
      moreover have "milestone_loop b c r t low high = milestone_loop b c r t (?mid + 1) high"
        using True below by (subst milestone_loop.simps) (simp add: Let_def)
      ultimately show ?thesis using mid by auto
    next
      case above: False
      have "?mid < H \<longrightarrow> \<not> num_lt (calculateFutureValue b c r ?mid) t"
        using above by simp
      then have "low \<le> milestone_loop b c r t low ?mid \<and>
         milestone_loop b c r t low ?mid \<le> ?mid \<and>
         (0 < milestone_loop b c r t low ?mid \<longrightarrow>
            num_lt (calculateFutureValue b c r (milestone_loop b c r t low ?mid - 1)) t) \<and>
         (milestone_loop b c r t low ?mid < H \<longrightarrow>
            \<not> num_lt (calculateFutureValue b c r (milestone_loop b c r t low ?mid)) t)"
        using mid(1) prems(2) by (intro "1.IH"(2)[OF True refl refl above])
      moreover have "milestone_loop b c r t low high = milestone_loop b c r t low ?mid"
        using True above by (subst milestone_loop.simps) (simp add: Let_def)
      ultimately show ?thesis using mid by auto
    qed
  qed
qed

lemma not_below_is_reached:
  assumes "v \<noteq> NaN" and "t \<noteq> NaN" and "\<not> num_lt v t"
  shows "num_ge v t"
  using assms by (cases v; cases t) (simp_all add: num_ge_def)

text \<open>
  In exact arithmetic, with a monthly factor \<open>1 + \<rho>\<close> that is not negative, the balance
  is \<open>(p + c / \<rho>) * (1 + \<rho>) ^ n - c / \<rho>\<close>, monotone in \<open>n\<close> one way or the other:
  once it has risen from below the target to the target, it stays there, and the months
  below the target are closed downwards.
\<close>

lemma annuity_form:
  fixes p c \<rho> x :: real
  assumes "\<rho> \<noteq> 0"
  shows "p * x + c * ((x - 1) / \<rho>) = (p + c / \<rho>) * x - c / \<rho>"
  using assms by (simp add: field_simps)

lemma reach_stays:
  fixes p c \<rho> t :: real
  assumes rho: "\<rho> \<noteq> 0" and q: "0 \<le> 1 + \<rho>" and start: "p < t" and mn: "m \<le> n"
    and reach: "t \<le> p * (1 + \<rho>) ^ m + c * (((1 + \<rho>) ^ m - 1) / \<rho>)"
  shows "t \<le> p * (1 + \<rho>) ^ n + c * (((1 + \<rho>) ^ n - 1) / \<rho>)"
proof -
  let ?q = "1 + \<rho>"
  let ?A = "p + c / \<rho>"
  have fm: "t \<le> ?A * ?q ^ m - c / \<rho>"
    using reach by (simp only: annuity_form[OF rho])
  then have gain: "0 < ?A * (?q ^ m - 1)"
    using start by (simp add: algebra_simps)
  have "0 \<le> ?A * (?q ^ n - ?q ^ m)"
  proof (cases "1 \<le> ?q")
    case True
    then have "0 \<le> ?q ^ m - 1" by simp
    with gain have "0 < ?A" by (simp add: zero_less_mult_iff)
    moreover have "?q ^ m \<le> ?q ^ n" using True mn by (rule power_increasing[rotated])
    ultimately show ?thesis by simp
  next
    case False
    then have q1: "?q \<le> 1" by simp
    then have "?q ^ m \<le> 1" using q by (simp add: power_le_one)
    then have "?q ^ m - 1 \<le> 0" by simp
    with gain have "?A < 0" by (simp add: zero_less_mult_iff)
    moreover have "?q ^ n \<le> ?q ^ m" using mn q q1 by (rule power_decreasing)
    ultimately show ?thesis by (simp add: mult_nonpos_nonpos)
  qed
  then have "?A * ?q ^ m - c / \<rho> \<le> ?A * ?q ^ n - c / \<rho>"
    by (simp add: algebra_simps)
  with fm show ?thesis
    by (simp only: annuity_form[OF rho])
qed

lemma below_target_downward:
  assumes "r \<noteq> 0" and "- 1200 \<le> r" and "p < t" and "m \<le> n"
    and "num_lt (calculateFutureValue (Fin p) (Fin c) (Fin r) n) (Fin t)"
  shows "num_lt (calculateFutureValue (Fin p) (Fin c) (Fin r) m) (Fin t)"
proof (rule ccontr)
  assume "\<not> num_lt (calculateFutureValue (Fin p) (Fin c) (Fin r) m) (Fin t)"
  then have "t \<le> p * (1 + r / 1200) ^ m + c * (((1 + r / 1200) ^ m - 1) / (r / 1200))"
    using assms(1) by (simp add: futureValue_closed_form)
  moreover have "r / 1200 \<noteq> 0" "0 \<le> 1 + r / 1200" using assms(1,2) by auto
  ultimately have "t \<le> p * (1 + r / 1200) ^ n + c * (((1 + r / 1200) ^ n - 1) / (r / 1200))"
    using assms(3,4) reach_stays by blast
  with assms(1,5) show False
    by (simp add: futureValue_closed_form)
qed

text \<open>
  C3. When the principal is at or above the target the result is \<open>0\<close>. Otherwise the
  result is \<open>P / 12\<close> for a month count \<open>P\<close> in \<open>[0, 1200]\<close> at which the future value
  crosses the target: the test \<open>value < target\<close> holds at month \<open>P - 1\<close> (when \<open>P\<close> is
  not \<open>0\<close>) and fails at month \<open>P\<close> (when \<open>P\<close> is not \<open>1200\<close>), so that the future
  value at \<open>P\<close> is at or above the target unless it is \<open>NaN\<close>. When the months below the
  target are closed downwards, every month before \<open>P\<close> is below the target and \<open>P\<close> is
  the smallest month that is not; \<open>P = 1200\<close>, the sentinel \<open>100\<close>, then says that no
  earlier month reaches the target. This holds for all inputs and whatever the arithmetic
  on finite numbers returns: the proof does not look inside \<open>calculateFutureValue\<close>.
\<close>

theorem C3_years_to_milestone:
  "(num_ge b t \<longrightarrow> calculateYearsToMilestone b c r t = Fin 0) \<and>
   (\<not> num_ge b t \<longrightarrow>
      (\<exists>P\<le>1200.
         calculateYearsToMilestone b c r t = num_div (Fin (real P)) (Fin 12) \<and>
         (0 < P \<longrightarrow> num_lt (calculateFutureValue b c r (P - 1)) t) \<and>
         (P < 1200 \<longrightarrow> \<not> num_lt (calculateFutureValue b c r P) t) \<and>
         (P < 1200 \<and> calculateFutureValue b c r P \<noteq> NaN \<and> t \<noteq> NaN \<longrightarrow>
            num_ge (calculateFutureValue b c r P) t) \<and>
         ((\<forall>m n. m \<le> n \<longrightarrow> num_lt (calculateFutureValue b c r n) t \<longrightarrow>
                  num_lt (calculateFutureValue b c r m) t) \<longrightarrow>
            (\<forall>n<P. num_lt (calculateFutureValue b c r n) t))))"
proof (intro conjI impI)
  assume "num_ge b t"
  then show "calculateYearsToMilestone b c r t = Fin 0"
    by (simp add: calculateYearsToMilestone_def)
next
  assume h: "\<not> num_ge b t"
  let ?P = "milestone_loop b c r t 0 1200"
  have res: "calculateYearsToMilestone b c r t = num_div (Fin (real ?P)) (Fin 12)"
    using h by (simp only: calculateYearsToMilestone_def if_False)
  have cross: "?P \<le> 1200 \<and>
      (0 < ?P \<longrightarrow> num_lt (calculateFutureValue b c r (?P - 1)) t) \<and>
      (?P < 1200 \<longrightarrow> \<not> num_lt (calculateFutureValue b c r ?P) t)"
    using milestone_loop_crossing[of 0 1200 b c r t 1200] by simp
  have reached: "?P < 1200 \<and> calculateFutureValue b c r ?P \<noteq> NaN \<and> t \<noteq> NaN \<longrightarrow>
      num_ge (calculateFutureValue b c r ?P) t"
    using cross not_below_is_reached by blast
  have first: "(\<forall>m n. m \<le> n \<longrightarrow> num_lt (calculateFutureValue b c r n) t \<longrightarrow>
                  num_lt (calculateFutureValue b c r m) t) \<longrightarrow>
      (\<forall>n<?P. num_lt (calculateFutureValue b c r n) t)"
  proof
    assume "\<forall>m n. m \<le> n \<longrightarrow> num_lt (calculateFutureValue b c r n) t \<longrightarrow>
                  num_lt (calculateFutureValue b c r m) t"
    from milestone_loop_bisects[OF this, of 0 1200 1200]
    show "\<forall>n<?P. num_lt (calculateFutureValue b c r n) t" by simp
  qed
  from res cross reached first
  show "\<exists>P\<le>1200.
         calculateYearsToMilestone b c r t = num_div (Fin (real P)) (Fin 12) \<and>
         (0 < P \<longrightarrow> num_lt (calculateFutureValue b c r (P - 1)) t) \<and>
         (P < 1200 \<longrightarrow> \<not> num_lt (calculateFutureValue b c r P) t) \<and>
         (P < 1200 \<and> calculateFutureValue b c r P \<noteq> NaN \<and> t \<noteq> NaN \<longrightarrow>
            num_ge (calculateFutureValue b c r P) t) \<and>
         ((\<forall>m n. m \<le> n \<longrightarrow> num_lt (calculateFutureValue b c r n) t \<longrightarrow>
                  num_lt (calculateFutureValue b c r m) t) \<longrightarrow>
            (\<forall>n<P. num_lt (calculateFutureValue b c r n) t))"
    by (intro exI[of _ ?P] conjI) blast+
qed


text \<open>
  With a principal and a contribution of \<open>1\<close> at the rate \<open>1200\<close> the balance after
  \<open>n\<close> months is \<open>2^(n+1) - 1\<close>: \<open>511\<close> after eight months, \<open>1023\<close> after nine. The
  theorem alone, without running the bisection, gives nine months for the target
  \<open>1000\<close>.
\<close>

theorem C3_years_to_milestone_witness:
  "num_ge (Fin 5) (Fin 5) \<and>
   calculateYearsToMilestone (Fin 5) (Fin 0) (Fin 10) (Fin 5) = Fin 0 \<and>
   \<not> num_ge (Fin 1) (Fin 1000) \<and>
   num_lt (calculateFutureValue (Fin 1) (Fin 1) (Fin 1200) 8) (Fin 1000) \<and>
   \<not> num_lt (calculateFutureValue (Fin 1) (Fin 1) (Fin 1200) 9) (Fin 1000) \<and>
   calculateYearsToMilestone (Fin 1) (Fin 1) (Fin 1200) (Fin 1000) = num_div (Fin 9) (Fin 12)"
proof -
  let ?fv = "calculateFutureValue (Fin 1) (Fin 1) (Fin 1200)"
  have ge: "num_ge (Fin 5) (Fin 5)" by (simp add: num_ge_def)
  have zero: "calculateYearsToMilestone (Fin 5) (Fin 0) (Fin 10) (Fin 5) = Fin 0"
    by (rule C3_years_to_milestone [of "Fin 5" "Fin 5" "Fin 0" "Fin 10", THEN conjunct1, THEN mp, OF ge])
  have lt: "\<not> num_ge (Fin 1) (Fin 1000)" by (simp add: num_ge_def)
  have fv: "?fv n = Fin (2 ^ n + (2 ^ n - 1))" for n
    by (simp add: futureValue_closed_form)
  have b8: "num_lt (?fv 8) (Fin 1000)"
    unfolding fv by simp
  have b9: "\<not> num_lt (?fv 9) (Fin 1000)"
    unfolding fv by simp
  have closed: "\<forall>m n. m \<le> n \<longrightarrow> num_lt (?fv n) (Fin 1000) \<longrightarrow> num_lt (?fv m) (Fin 1000)"
  proof (intro allI impI)
    fix m n :: nat
    assume "m \<le> n" and "num_lt (?fv n) (Fin 1000)"
    then show "num_lt (?fv m) (Fin 1000)"
      by (rule below_target_downward[of 1200 1 1000, rotated 3]) simp_all
  qed
  have "\<exists>P\<le>1200.
         calculateYearsToMilestone (Fin 1) (Fin 1) (Fin 1200) (Fin 1000) =
           num_div (Fin (real P)) (Fin 12) \<and>
         (0 < P \<longrightarrow> num_lt (?fv (P - 1)) (Fin 1000)) \<and>
         (P < 1200 \<longrightarrow> \<not> num_lt (?fv P) (Fin 1000)) \<and>
         (P < 1200 \<and> ?fv P \<noteq> NaN \<and> Fin 1000 \<noteq> NaN \<longrightarrow> num_ge (?fv P) (Fin 1000)) \<and>
         ((\<forall>m n. m \<le> n \<longrightarrow> num_lt (?fv n) (Fin 1000) \<longrightarrow> num_lt (?fv m) (Fin 1000)) \<longrightarrow>
            (\<forall>n<P. num_lt (?fv n) (Fin 1000)))"
    by (rule C3_years_to_milestone [of "Fin 1" "Fin 1000" "Fin 1" "Fin 1200", THEN conjunct2, THEN mp, OF lt])
  then obtain P where P: "P \<le> 1200"
    and res: "calculateYearsToMilestone (Fin 1) (Fin 1) (Fin 1200) (Fin 1000) =
              num_div (Fin (real P)) (Fin 12)"
    and stop: "P < 1200 \<longrightarrow> \<not> num_lt (?fv P) (Fin 1000)"
    and first: "(\<forall>m n. m \<le> n \<longrightarrow> num_lt (?fv n) (Fin 1000) \<longrightarrow> num_lt (?fv m) (Fin 1000)) \<longrightarrow>
            (\<forall>n<P. num_lt (?fv n) (Fin 1000))"
    by (elim exE conjE)
  from first closed have before: "\<forall>n<P. num_lt (?fv n) (Fin 1000)"
    by (rule mp)
  have "P \<le> 9"
  proof (rule ccontr)
    assume "\<not> P \<le> 9"
    then have "9 < P" by simp
    with before have "num_lt (?fv 9) (Fin 1000)" by simp
    with b9 show False by simp
  qed
  moreover have "9 \<le> P"
  proof (rule ccontr)
    assume "\<not> 9 \<le> P"
    then have p8: "P \<le> 8" by simp
    from closed have "P \<le> 8 \<longrightarrow> num_lt (?fv 8) (Fin 1000) \<longrightarrow> num_lt (?fv P) (Fin 1000)"
      by (elim allE[of _ P] allE[of _ 8])
    with p8 b8 have "num_lt (?fv P) (Fin 1000)" by simp
    moreover from p8 stop have "\<not> num_lt (?fv P) (Fin 1000)" by simp
    ultimately show False by simp
  qed
  ultimately have "P = 9" by (rule antisym)
  with res have nine: "calculateYearsToMilestone (Fin 1) (Fin 1) (Fin 1200) (Fin 1000) =
      num_div (Fin 9) (Fin 12)" by simp
  from ge zero lt b8 b9 nine show ?thesis
    by (intro conjI)
qed


text \<open>
  At the rate \<open>-2400\<close> the monthly factor is \<open>-1\<close> and the balance alternates between
  \<open>0\<close> and \<open>10\<close>: the first month already reaches the target \<open>5\<close>, and the bisection
  answers \<open>1101\<close> months, a crossing that is not the first.
\<close>

theorem C3_years_to_milestone_counterexample:
  "calculateYearsToMilestone (Fin 0) (Fin 10) (Fin (- 2400)) (Fin 5) = Fin (1101 / 12) \<and>
   num_lt (calculateFutureValue (Fin 0) (Fin 10) (Fin (- 2400)) 0) (Fin 5) \<and>
   num_ge (calculateFutureValue (Fin 0) (Fin 10) (Fin (- 2400)) 1) (Fin 5)"
  by (simp add: calculateYearsToMilestone_def num_ge_def calculateFutureValue_def num_sub_def
      milestone_loop.simps)

text \<open>At the rate \<open>0\<close> every comparison with the target fails and the bisection ends at \<open>0\<close>.\<close>

lemma yearsToMilestone_zero_rate:
  assumes "p < t"
  shows "calculateYearsToMilestone (Fin p) (Fin c) (Fin 0) (Fin t) = Fin 0"
  using assms
  by (simp add: calculateYearsToMilestone_def num_ge_def futureValue_zero_rate milestone_loop.simps)

subsection \<open>Projections\<close>

text \<open>The loop appends one point per month, from the starting month to the last.\<close>

lemma projections_loop_map:
  "projections_loop i c r months m data =
     data @ map (month_point i c r) [m..<months + 1]"
proof (induction i c r months m data rule: projections_loop.induct)
  case (1 i c r months m data)
  show ?case
  proof (cases "m \<le> months")
    case True
    then have "[m..<months + 1] = m # [m + 1..<months + 1]"
      by (simp add: upt_conv_Cons)
    then show ?thesis
      using True "1.IH"[OF True] by (subst projections_loop.simps) simp
  next
    case False
    then show ?thesis
      by (subst projections_loop.simps) simp
  qed
qed

lemma calculateProjections_map:
  "calculateProjections i c r years = map (month_point i c r) [1..<Suc (years * 12)]"
  by (simp add: calculateProjections_def projections_loop_map Let_def del: upt_Suc)

lemma calculateProjections_nth:
  assumes "1 \<le> k" and "k \<le> years * 12"
  shows "calculateProjections i c r years ! (k - 1) = month_point i c r k"
  using assms by (simp add: calculateProjections_map del: upt_Suc)

lemma calculateProjections_length:
  "length (calculateProjections i c r years) = years * 12"
  by (simp add: calculateProjections_map del: upt_Suc)

lemma calculateProjections_nonempty:
  assumes "0 < years"
  shows "calculateProjections i c r years \<noteq> []"
proof -
  have "length (calculateProjections i c r years) = years * 12"
    by (rule calculateProjections_length)
  with assms show ?thesis by auto
qed

lemma floor_months_to_years: "\<lfloor>real k / 12\<rfloor> = int (k div 12)"
  by (metis floor_divide_of_nat_eq of_nat_numeral)

text \<open>
  C6. The series has exactly \<open>years * 12\<close> points, in the order of the months: the
  \<open>k\<close>-th point (counting from one) has the month index \<open>k\<close> and the year
  \<open>k div 12\<close>, the floor of \<open>k / 12\<close>.
\<close>

theorem C6_series_shape:
  "length (calculateProjections i c r years) = years * 12 \<and>
   (\<forall>k. 1 \<le> k \<and> k \<le> years * 12 \<longrightarrow>
      month (calculateProjections i c r years ! (k - 1)) = Fin (real k) \<and>
      year (calculateProjections i c r years ! (k - 1)) = Fin (real (k div 12)))"
proof (intro conjI allI impI)
  show "length (calculateProjections i c r years) = years * 12"
    by (simp add: calculateProjections_map del: upt_Suc)
next
  fix k assume "1 \<le> k \<and> k \<le> years * 12"
  then have nth: "calculateProjections i c r years ! (k - 1) = month_point i c r k"
    using calculateProjections_nth by blast
  show "month (calculateProjections i c r years ! (k - 1)) = Fin (real k)"
    unfolding nth by (simp add: month_point_def Let_def)
  show "year (calculateProjections i c r years ! (k - 1)) = Fin (real (k div 12))"
    unfolding nth by (simp add: month_point_def Let_def floor_months_to_years)
qed

theorem C6_series_shape_witness:
  "(1::nat) \<le> 12 \<and> (12::nat) \<le> 1 * 12 \<and>
   length (calculateProjections (Fin 10000) (Fin 500) (Fin 10) 1) = 12 \<and>
   month (calculateProjections (Fin 10000) (Fin 500) (Fin 10) 1 ! 11) = Fin 12 \<and>
   year (calculateProjections (Fin 10000) (Fin 500) (Fin 10) 1 ! 11) = Fin 1"
  using C6_series_shape [of "Fin 10000" "Fin 500" "Fin 10" 1]
  by (auto dest: spec [of _ 12])

text \<open>
  C7. In the \<open>k\<close>-th point emitted, every monetary field is \<open>Math.round\<close> of its
  unrounded value, rounded once, at emission. The gains field is the rounding of the
  unrounded balance minus the unrounded contributions; it is not computed from the
  balance field and the contributions field. This holds for all inputs and whatever the
  arithmetic on finite numbers returns.
\<close>

theorem C7_fields_rounded_at_emission:
  assumes "1 \<le> k" and "k \<le> years * 12"
  shows
   "balance (calculateProjections i c r years ! (k - 1)) =
      math_round (calculateFutureValue i c r k) \<and>
    contributions (calculateProjections i c r years ! (k - 1)) =
      math_round (num_add i (num_mul c (Fin (real k)))) \<and>
    gains (calculateProjections i c r years ! (k - 1)) =
      math_round (num_sub (calculateFutureValue i c r k) (num_add i (num_mul c (Fin (real k))))) \<and>
    inflationAdjusted (calculateProjections i c r years ! (k - 1)) =
      math_round (num_div (calculateFutureValue i c r k) (inflation_divisor k)) \<and>
    savingsAccount (calculateProjections i c r years ! (k - 1)) =
      math_round (calculateFutureValue i c SAVINGS_INTEREST k) \<and>
    bonds (calculateProjections i c r years ! (k - 1)) =
      math_round (calculateFutureValue i c BONDS_INTEREST k) \<and>
    bestCase (calculateProjections i c r years ! (k - 1)) =
      math_round (calculateFutureValue i c BEST_YEAR k) \<and>
    worstCase (calculateProjections i c r years ! (k - 1)) =
      math_round (calculateFutureValue i c WORST_YEAR k)"
proof -
  have pt: "calculateProjections i c r years ! (k - 1) = month_point i c r k"
    using assms by (rule calculateProjections_nth)
  show ?thesis
    unfolding pt by (simp add: month_point_def Let_def)
qed

theorem C7_fields_rounded_at_emission_witness:
  "(1::nat) \<le> 12 \<and> (12::nat) \<le> 1 * 12 \<and>
   contributions (calculateProjections (Fin 10000) (Fin 500) (Fin 10) 1 ! 11) = Fin 16000 \<and>
   balance (calculateProjections (Fin 10000) (Fin 500) (Fin 10) 1 ! 11) =
     math_round (calculateFutureValue (Fin 10000) (Fin 500) (Fin 10) 12) \<and>
   gains (calculateProjections (Fin 10000) (Fin 500) (Fin 10) 1 ! 11) =
     math_round (num_sub (calculateFutureValue (Fin 10000) (Fin 500) (Fin 10) 12) (Fin 16000))"
proof -
  have k: "(1::nat) \<le> 12" "(12::nat) \<le> 1 * 12" by simp_all
  have whole: "\<lfloor>(16000::real) + 1 / 2\<rfloor> = 16000" by linarith
  have ct: "num_add (Fin 10000) (num_mul (Fin 500) (Fin (real (12::nat)))) = Fin 16000"
    by simp
  have ctr: "math_round (Fin 16000) = Fin 16000"
    using whole by simp
  from C7_fields_rounded_at_emission [OF k, of "Fin 10000" "Fin 500" "Fin 10"]
  show ?thesis
    by (simp only: ct ctr) simp
qed

text \<open>
  A principal of \<open>60.6\<close> at \<open>12\<close> percent and no contribution: after one month the
  balance is \<open>61.206\<close>, emitted as \<open>61\<close>; the contributions \<open>60.6\<close>, emitted as
  \<open>61\<close>; the gains \<open>0.606\<close>, emitted as \<open>1\<close> and not as \<open>61 - 61\<close>. Doubles round
  the three values the same way.
\<close>

theorem C7_gains_counterexample:
  "gains (calculateProjections (Fin (303 / 5)) (Fin 0) (Fin 12) 1 ! 0) \<noteq>
   num_sub (balance (calculateProjections (Fin (303 / 5)) (Fin 0) (Fin 12) 1 ! 0))
           (contributions (calculateProjections (Fin (303 / 5)) (Fin 0) (Fin 12) 1 ! 0))"
proof -
  have pt: "calculateProjections (Fin (303 / 5)) (Fin 0) (Fin 12) 1 ! 0 =
            month_point (Fin (303 / 5)) (Fin 0) (Fin 12) 1"
    using calculateProjections_nth [of 1 1 "Fin (303 / 5)" "Fin 0" "Fin 12"] by simp
  show ?thesis
    unfolding pt
    by (simp add: month_point_def calculateFutureValue_def num_sub_def Let_def)
qed

subsection \<open>Metrics\<close>

lemma zero_rate_round_trip: "num_div (math_round (num_mul (Fin 0) (Fin 10))) (Fin 10) = Fin 0"
proof -
  have "\<lfloor>(1::real) / 2\<rfloor> = 0" by linarith
  then show ?thesis by simp
qed

lemma metrics_requiredRate:
  assumes "ps \<noteq> []"
  shows "\<exists>m. calculateInvestmentMetrics ps i c r tmi = Inr m \<and>
          requiredRate m = num_div (math_round (num_mul (Fin
             (case tmi of None \<Rightarrow> 0
              | Some t \<Rightarrow> if truthy t
                          then rate_loop i c (length ps) (num_div (num_mul t (Fin 12)) (Fin (4 / 100))) 0 0
                          else 0)) (Fin 10))) (Fin 10)"
  using assms by (simp add: calculateInvestmentMetrics_def Let_def)

text \<open>
  In goal mode a target income of \<open>3\<close> is a target balance of \<open>900\<close>; contributions
  of \<open>100\<close> at \<open>10\<close> percent exceed it within the year, and the required investment
  is \<open>0\<close>.
\<close>

lemma goal_mode_income_3_principal:
  "calculateRequiredInvestment (num_div (num_mul (Fin 3) (Fin 12)) (Fin (4 / 100)))
     (Fin 100) (Fin 10) 12 = Fin 0"
  by (simp add: requiredInvestment_closed_form max_def power_divide)

text \<open>
  C8. The required rate should be the first candidate among \<open>0, 0.1, ..., 50\<close> whose
  future value meets the target balance. With no principal, contributions of \<open>100\<close>
  over the twelve months of a one-year series and a target income of \<open>3\<close>, the target
  balance is \<open>900\<close> and the candidate \<open>0\<close> meets it: \<open>0 + 100 * 12 = 1200\<close>. The code
  computes \<open>NaN\<close> at the candidate \<open>0\<close>, passes it over, and returns \<open>0.1\<close>.
\<close>

theorem C8_required_rate_skips_zero:
  "\<exists>m. calculateInvestmentMetrics (calculateProjections (Fin 0) (Fin 100) (Fin 10) 1)
          (Fin 0) (Fin 100) (Fin 10) (Some (Fin 3)) = Inr m \<and>
        requiredRate m = Fin (1 / 10)"
proof -
  have ne: "calculateProjections (Fin 0) (Fin 100) (Fin 10) 1 \<noteq> []"
    by (simp add: calculateProjections_nonempty)
  have len: "length (calculateProjections (Fin 0) (Fin 100) (Fin 10) 1) = 12"
    by (simp add: calculateProjections_length)
  have tb: "num_div (num_mul (Fin 3) (Fin 12)) (Fin (4 / 100)) = Fin 900" by simp
  have fv0: "\<not> num_ge (calculateFutureValue (Fin 0) (Fin 100) (Fin 0) 12) (Fin 900)"
    by (simp add: futureValue_zero_rate num_ge_def)
  have fv1: "num_ge (calculateFutureValue (Fin 0) (Fin 100) (Fin (0 + 1 / 10)) 12) (Fin 900)"
    by (simp add: futureValue_closed_form num_ge_def power_divide)
  have "rate_loop (Fin 0) (Fin 100) 12 (Fin 900) 0 0 =
        rate_loop (Fin 0) (Fin 100) 12 (Fin 900) 0 (0 + 1 / 10)"
    using fv0 by (subst rate_loop.simps) (simp add: Let_def)
  also have "\<dots> = 0 + 1 / 10"
    using fv1 by (subst rate_loop.simps) (simp add: Let_def)
  finally have loop: "rate_loop (Fin 0) (Fin 100) 12 (Fin 900) 0 0 = 1 / 10" by simp
  have rnd: "num_div (math_round (num_mul (Fin (1 / 10)) (Fin 10))) (Fin 10) = Fin (1 / 10)"
  proof -
    have "\<lfloor>(1::real) + 1 / 2\<rfloor> = 1" by linarith
    then show ?thesis by simp
  qed
  have tr: "truthy (Fin 3)" by simp
  from metrics_requiredRate[OF ne, of "Fin 0" "Fin 100" "Fin 10" "Some (Fin 3)"]
  show ?thesis
    by (simp only: option.case tr if_True len tb loop rnd)
qed

text \<open>
  C9. On an empty series the read of the last element is out of bounds and the function
  throws. On a series that is not empty the index \<open>length - 1\<close> is in bounds and the
  function returns; every field of the result comes from the last point, from the three
  milestone searches, from the rate search, or is the constant \<open>25\<close>.
\<close>

theorem C9_metrics_from_final_point:
  "(ps = [] \<longrightarrow> calculateInvestmentMetrics ps i c r tmi = Inl TypeError) \<and>
   (ps \<noteq> [] \<longrightarrow>
      length ps - 1 < length ps \<and>
      (\<exists>m. calculateInvestmentMetrics ps i c r tmi = Inr m \<and>
         finalBalance m = math_round (balance (last ps)) \<and>
         totalContributions m = math_round (contributions (last ps)) \<and>
         totalGains m = math_round (gains (last ps)) \<and>
         inflationAdjustedValue m = math_round (inflationAdjusted (last ps)) \<and>
         monthlyIncome m =
           math_round (num_div (num_mul (balance (last ps)) (Fin (4 / 100))) (Fin 12)) \<and>
         vsSavings m = math_round (num_sub (balance (last ps)) (savingsAccount (last ps))) \<and>
         vsBonds m = math_round (num_sub (balance (last ps)) (bonds (last ps))) \<and>
         yearsTo1M m =
           num_div (math_round (num_mul (calculateYearsToMilestone i c r (Fin 1000000)) (Fin 10))) (Fin 10) \<and>
         yearsTo2M m =
           num_div (math_round (num_mul (calculateYearsToMilestone i c r (Fin 2000000)) (Fin 10))) (Fin 10) \<and>
         yearsTo5M m =
           num_div (math_round (num_mul (calculateYearsToMilestone i c r (Fin 5000000)) (Fin 10))) (Fin 10) \<and>
         requiredRate m =
           num_div (math_round (num_mul (Fin
             (case tmi of None \<Rightarrow> 0
              | Some t \<Rightarrow> if truthy t
                          then rate_loop i c (length ps) (num_div (num_mul t (Fin 12)) (Fin (4 / 100))) 0 0
                          else 0)) (Fin 10))) (Fin 10) \<and>
         withdrawalSustainability m = Fin 25))"
proof (intro conjI impI)
  assume "ps = []"
  then show "calculateInvestmentMetrics ps i c r tmi = Inl TypeError"
    by (simp add: calculateInvestmentMetrics_def)
next
  assume "ps \<noteq> []"
  then show "length ps - 1 < length ps" by simp
next
  assume ne: "ps \<noteq> []"
  then have "ps ! (length ps - 1) = last ps"
    by (simp add: last_conv_nth)
  with ne show "\<exists>m. calculateInvestmentMetrics ps i c r tmi = Inr m \<and>
         finalBalance m = math_round (balance (last ps)) \<and>
         totalContributions m = math_round (contributions (last ps)) \<and>
         totalGains m = math_round (gains (last ps)) \<and>
         inflationAdjustedValue m = math_round (inflationAdjusted (last ps)) \<and>
         monthlyIncome m =
           math_round (num_div (num_mul (balance (last ps)) (Fin (4 / 100))) (Fin 12)) \<and>
         vsSavings m = math_round (num_sub (balance (last ps)) (savingsAccount (last ps))) \<and>
         vsBonds m = math_round (num_sub (balance (last ps)) (bonds (last ps))) \<and>
         yearsTo1M m =
           num_div (math_round (num_mul (calculateYearsToMilestone i c r (Fin 1000000)) (Fin 10))) (Fin 10) \<and>
         yearsTo2M m =
           num_div (math_round (num_mul (calculateYearsToMilestone i c r (Fin 2000000)) (Fin 10))) (Fin 10) \<and>
         yearsTo5M m =
           num_div (math_round (num_mul (calculateYearsToMilestone i c r (Fin 5000000)) (Fin 10))) (Fin 10) \<and>
         requiredRate m =
           num_div (math_round (num_mul (Fin
             (case tmi of None \<Rightarrow> 0
              | Some t \<Rightarrow> if truthy t
                          then rate_loop i c (length ps) (num_div (num_mul t (Fin 12)) (Fin (4 / 100))) 0 0
                          else 0)) (Fin 10))) (Fin 10) \<and>
         withdrawalSustainability m = Fin 25"
    by (simp add: calculateInvestmentMetrics_def Let_def)
qed

theorem C9_metrics_from_final_point_witness:
  "calculateInvestmentMetrics [] (Fin 10000) (Fin 500) (Fin 10) None = Inl TypeError \<and>
   calculateProjections (Fin 10000) (Fin 500) (Fin 10) 30 \<noteq> [] \<and>
   (\<exists>m. calculateInvestmentMetrics (calculateProjections (Fin 10000) (Fin 500) (Fin 10) 30)
          (Fin 10000) (Fin 500) (Fin 10) None = Inr m \<and>
        finalBalance m =
          math_round (balance (last (calculateProjections (Fin 10000) (Fin 500) (Fin 10) 30))) \<and>
        requiredRate m = Fin 0 \<and>
        withdrawalSustainability m = Fin 25)"
proof -
  have ne: "calculateProjections (Fin 10000) (Fin 500) (Fin 10) 30 \<noteq> []"
    by (simp add: calculateProjections_nonempty)
  show ?thesis
    using ne
      C9_metrics_from_final_point [of "[]" "Fin 10000" "Fin 500" "Fin 10" None]
      C9_metrics_from_final_point [of "calculateProjections (Fin 10000) (Fin 500) (Fin 10) 30"
        "Fin 10000" "Fin 500" "Fin 10" None]
    by (auto simp: zero_rate_round_trip)
qed

text \<open>
  C10. On every series that is not empty the function returns, and the field
  \<open>withdrawalSustainability\<close> of the result is the constant \<open>25\<close>, whatever the
  other inputs.
\<close>

theorem C10_withdrawal_sustainability:
  assumes "ps \<noteq> []"
  shows "\<exists>m. calculateInvestmentMetrics ps i c r tmi = Inr m \<and> withdrawalSustainability m = Fin 25"
  using assms by (simp add: calculateInvestmentMetrics_def Let_def)

theorem C10_withdrawal_sustainability_witness:
  "calculateProjections (Fin 10000) (Fin 500) (Fin 10) 30 \<noteq> [] \<and>
   (\<exists>m. calculateInvestmentMetrics (calculateProjections (Fin 10000) (Fin 500) (Fin 10) 30)
          (Fin 10000) (Fin 500) (Fin 10) None = Inr m \<and>
        withdrawalSustainability m = Fin 25)"
proof -
  have ne: "calculateProjections (Fin 10000) (Fin 500) (Fin 10) 30 \<noteq> []"
    by (simp add: calculateProjections_nonempty)
  show ?thesis
    using ne C10_withdrawal_sustainability [OF ne, of "Fin 10000" "Fin 500" "Fin 10" None]
    by simp
qed

text \<open>On the empty series nothing is returned: the function throws.\<close>

theorem C10_empty_series_counterexample:
  "calculateInvestmentMetrics [] (Fin 10000) (Fin 500) (Fin 10) None = Inl TypeError"
  by (simp add: calculateInvestmentMetrics_def)

end
